theory Spec2Isabelle
  imports Complex_Main "HOL-Library.Extended_Nat" "HOL-Library.Sublist" "HOL-Library.AList"
begin

section \<open>Numbers\<close>

text \<open>
  The program computes with Python and numpy floats. Finite values are idealised
  as reals (no rounding, no overflow, no signed zero); the three special values a
  float can take are kept as constructors of their own, because the program
  produces and tests them and because Python's builtin \<open>min\<close> and \<open>max\<close> treat
  them in a particular way.
\<close>

datatype pyfloat = Fin real | PosInf | NegInf | NaN

text \<open>The comparison \<^verbatim>\<open>a < b\<close> of two floats: false whenever one side is NaN.\<close>

fun pf_less :: "pyfloat \<Rightarrow> pyfloat \<Rightarrow> bool" where
  "pf_less NaN b = False"
| "pf_less a NaN = False"
| "pf_less (Fin a) (Fin b) = (a < b)"
| "pf_less (Fin a) PosInf = True"
| "pf_less (Fin a) NegInf = False"
| "pf_less PosInf b = False"
| "pf_less NegInf (Fin b) = True"
| "pf_less NegInf PosInf = True"
| "pf_less NegInf NegInf = False"

text \<open>
  Python's builtins on two arguments: \<^verbatim>\<open>min(a, b)\<close> keeps \<open>a\<close> unless \<^verbatim>\<open>b < a\<close>,
  \<^verbatim>\<open>max(a, b)\<close> keeps \<open>a\<close> unless \<^verbatim>\<open>b > a\<close>. With a NaN the comparison is false
  and the first argument is kept.
\<close>

definition py_min :: "pyfloat \<Rightarrow> pyfloat \<Rightarrow> pyfloat" where
  "py_min a b = (if pf_less b a then b else a)"

definition py_max :: "pyfloat \<Rightarrow> pyfloat \<Rightarrow> pyfloat" where
  "py_max a b = (if pf_less a b then b else a)"

text \<open>The product of two floats (IEEE 754: zero times infinity is NaN).\<close>

fun pf_times :: "pyfloat \<Rightarrow> pyfloat \<Rightarrow> pyfloat" where
  "pf_times NaN b = NaN"
| "pf_times a NaN = NaN"
| "pf_times (Fin a) (Fin b) = Fin (a * b)"
| "pf_times (Fin a) PosInf = (if a = 0 then NaN else if 0 < a then PosInf else NegInf)"
| "pf_times (Fin a) NegInf = (if a = 0 then NaN else if 0 < a then NegInf else PosInf)"
| "pf_times PosInf (Fin b) = (if b = 0 then NaN else if 0 < b then PosInf else NegInf)"
| "pf_times NegInf (Fin b) = (if b = 0 then NaN else if 0 < b then NegInf else PosInf)"
| "pf_times PosInf PosInf = PosInf"
| "pf_times PosInf NegInf = NegInf"
| "pf_times NegInf PosInf = NegInf"
| "pf_times NegInf NegInf = PosInf"

text \<open>The real value of a finite float (0 for the special values, where it is not used).\<close>

fun fin_val :: "pyfloat \<Rightarrow> real" where
  "fin_val (Fin v) = v"
| "fin_val PosInf = 0"
| "fin_val NegInf = 0"
| "fin_val NaN = 0"

text \<open>
  \<^verbatim>\<open>np.sqrt\<close> and \<^verbatim>\<open>np.log\<close> on a float: outside their domain they return NaN
  (and \<^verbatim>\<open>np.log(0)\<close> returns minus infinity) with a warning; they do not raise.
\<close>

fun np_sqrt :: "pyfloat \<Rightarrow> pyfloat" where
  "np_sqrt (Fin x) = (if x < 0 then NaN else Fin (sqrt x))"
| "np_sqrt PosInf = PosInf"
| "np_sqrt NegInf = NaN"
| "np_sqrt NaN = NaN"

fun np_log :: "pyfloat \<Rightarrow> pyfloat" where
  "np_log (Fin x) = (if x < 0 then NaN else if x = 0 then NegInf else Fin (ln x))"
| "np_log PosInf = PosInf"
| "np_log NegInf = NaN"
| "np_log NaN = NaN"

section \<open>Strategies (models/strategy_model.py)\<close>

text \<open>
  A \<open>StrategyModel\<close> carries \<open>returns\<close> (\<open>None\<close> until \<open>set_returns\<close> is called,
  then a one-dimensional array) and the \<open>metrics\<close> dictionary. Only the entry
  \<open>kelly_criterion\<close> of the dictionary is read by the portfolio code, and the
  metrics engine can store a NaN there, so its values are \<open>pyfloat\<close>.
\<close>

record StrategyModel =
  returns :: "real list option"
  metrics :: "(string \<times> pyfloat) list"

subsection \<open>\<open>StrategyModel._calculate_omega_ratio\<close>\<close>

text \<open>
  \<^verbatim>\<open>gains = self.returns[self.returns > threshold] - threshold\<close>,
  \<^verbatim>\<open>losses = threshold - self.returns[self.returns <= threshold]\<close>,
  \<^verbatim>\<open>if len(losses) == 0 or np.sum(losses) == 0: return np.inf\<close>,
  \<^verbatim>\<open>return np.sum(gains) / np.sum(losses)\<close>.
\<close>

definition calculate_omega_ratio :: "real list \<Rightarrow> real \<Rightarrow> pyfloat" where
  "calculate_omega_ratio rs threshold =
     (let gains = map (\<lambda>r. r - threshold) (filter (\<lambda>r. r > threshold) rs);
          losses = map (\<lambda>r. threshold - r) (filter (\<lambda>r. r \<le> threshold) rs)
      in if length losses = 0 \<or> sum_list losses = 0 then PosInf
         else Fin (sum_list gains / sum_list losses))"

section \<open>Portfolio (models/portfolio_model.py)\<close>

text \<open>
  The two dictionaries of a \<open>PortfolioModel\<close> that the allocation code reads and
  writes. A Python dictionary is an association list with distinct keys in
  insertion order: \<^verbatim>\<open>d[k] = v\<close> is \<^const>\<open>AList.update\<close> (in place when the key is
  present, appended otherwise) and \<^verbatim>\<open>del d[k]\<close> is \<^const>\<open>AList.delete\<close>. The other
  attributes (name, capital, trade models, cached curves and metrics) are not
  touched by the operations below.
\<close>

record PortfolioModel =
  strategies :: "(string \<times> StrategyModel) list"
  allocations :: "(string \<times> real) list"

datatype py_error = KeyError

subsection \<open>\<open>_normalize_allocations\<close>\<close>

text \<open>
  \<^verbatim>\<open>total = sum(self.allocations.values())\<close>; when \<^verbatim>\<open>total > 0\<close> every value is
  divided by \<open>total\<close>, otherwise nothing changes.
\<close>

definition normalize_allocations :: "PortfolioModel \<Rightarrow> PortfolioModel" where
  "normalize_allocations p =
     (let total = sum_list (map snd (allocations p))
      in if total > 0
         then p\<lparr>allocations := map (\<lambda>(key, v). (key, v / total)) (allocations p)\<rparr>
         else p)"

subsection \<open>\<open>add_strategy\<close>, \<open>remove_strategy\<close>, \<open>set_allocation\<close>, \<open>rebalance\<close>\<close>

definition add_strategy :: "PortfolioModel \<Rightarrow> string \<Rightarrow> StrategyModel \<Rightarrow> real \<Rightarrow> PortfolioModel" where
  "add_strategy p nm strategy allocation =
     normalize_allocations
       (p\<lparr>strategies := AList.update nm strategy (strategies p),
          allocations := AList.update nm allocation (allocations p)\<rparr>)"

text \<open>
  \<^verbatim>\<open>del self.allocations[name]\<close> raises \<open>KeyError\<close> when the allocation mapping,
  which \<open>set_allocation\<close> replaces wholesale, has no entry for the strategy; the
  strategy itself is deleted before that.
\<close>

definition remove_strategy :: "PortfolioModel \<Rightarrow> string \<Rightarrow> py_error + PortfolioModel" where
  "remove_strategy p nm =
     (if nm \<in> fst ` set (strategies p)
      then if nm \<in> fst ` set (allocations p)
           then Inr (p\<lparr>strategies := AList.delete nm (strategies p),
                        allocations := AList.delete nm (allocations p)\<rparr>)
           else Inl KeyError
      else Inr p)"

definition set_allocation :: "PortfolioModel \<Rightarrow> (string \<times> real) list \<Rightarrow> PortfolioModel" where
  "set_allocation p allocs = p\<lparr>allocations := allocs\<rparr>"

definition rebalance :: "PortfolioModel \<Rightarrow> string \<Rightarrow> PortfolioModel" where
  "rebalance p frequency =
     (if frequency \<notin> set [''daily'', ''weekly'', ''monthly'', ''quarterly'', ''yearly'']
      then p
      else normalize_allocations p)"

subsection \<open>\<open>_equal_weight_allocation\<close>\<close>

definition equal_weight_allocation :: "(string \<times> StrategyModel) list \<Rightarrow> (string \<times> real) list" where
  "equal_weight_allocation strats =
     (let n = length strats
      in if n = 0 then []
         else let weight = 1 / real n in map (\<lambda>(nm, strategy). (nm, weight)) strats)"

subsection \<open>\<open>_risk_parity_allocation\<close>\<close>

text \<open>
  The loop over \<^verbatim>\<open>self.strategies.items()\<close>, with its two accumulators.
  \<^verbatim>\<open>vol = np.std(strategy.returns)\<close> is computed by numpy in floating point, and
  the test \<^verbatim>\<open>vol > 0\<close> is made on the computed value: on a constant series such
  as \<open>[0.1, 0.1, 0.1]\<close> rounding leaves a tiny positive deviation, and the
  strategy is kept. The computed deviation is therefore the parameter \<open>np_std\<close>
  of the loop, not the exact deviation of the series.
\<close>

fun risk_parity_loop ::
  "(real list \<Rightarrow> real) \<Rightarrow> (string \<times> StrategyModel) list
     \<Rightarrow> (string \<times> real) list \<times> real \<Rightarrow> (string \<times> real) list \<times> real" where
  "risk_parity_loop np_std [] acc = acc"
| "risk_parity_loop np_std ((nm, strategy) # rest) (allocs, total_inv_vol) =
     (case returns strategy of
        None \<Rightarrow> risk_parity_loop np_std rest (allocs, total_inv_vol)
      | Some r \<Rightarrow>
          if length r > 0
          then let vol = np_std r
               in if vol > 0
                  then let inv_vol = 1 / vol
                       in risk_parity_loop np_std rest
                            (AList.update nm inv_vol allocs, total_inv_vol + inv_vol)
                  else risk_parity_loop np_std rest (allocs, total_inv_vol)
          else risk_parity_loop np_std rest (allocs, total_inv_vol))"

definition risk_parity_allocation ::
  "(real list \<Rightarrow> real) \<Rightarrow> (string \<times> StrategyModel) list \<Rightarrow> (string \<times> real) list" where
  "risk_parity_allocation np_std strats =
     (case risk_parity_loop np_std strats ([], 0) of
        (allocs, total_inv_vol) \<Rightarrow>
          if total_inv_vol > 0
          then map (\<lambda>(nm, v). (nm, v / total_inv_vol)) allocs
          else allocs)"

subsection \<open>\<open>_kelly_allocation\<close>\<close>

text \<open>
  \<^verbatim>\<open>allocations[name] = max(0, min(kelly * 0.25, 0.25))\<close> when the strategy has the
  metric, \<^verbatim>\<open>0.02\<close> otherwise. The metric can be any float, NaN included (the
  metrics engine divides an infinite payoff ratio by itself when a strategy has
  no losing trade); the value stored is finite in every case.
\<close>

definition kelly_fraction :: "pyfloat \<Rightarrow> pyfloat" where
  "kelly_fraction kelly =
     py_max (Fin 0) (py_min (pf_times kelly (Fin (25/100))) (Fin (25/100)))"

fun kelly_loop ::
  "(string \<times> StrategyModel) list \<Rightarrow> (string \<times> real) list \<Rightarrow> (string \<times> real) list" where
  "kelly_loop [] allocs = allocs"
| "kelly_loop ((nm, strategy) # rest) allocs =
     (case map_of (metrics strategy) ''kelly_criterion'' of
        Some kelly \<Rightarrow> kelly_loop rest (AList.update nm (fin_val (kelly_fraction kelly)) allocs)
      | None \<Rightarrow> kelly_loop rest (AList.update nm (2/100) allocs))"

definition kelly_allocation :: "(string \<times> StrategyModel) list \<Rightarrow> (string \<times> real) list" where
  "kelly_allocation strats =
     (let allocs = kelly_loop strats [];
          total = sum_list (map snd allocs)
      in if total > 0 then map (\<lambda>(nm, v). (nm, v / total)) allocs else allocs)"

subsection \<open>\<open>optimize_allocations\<close>\<close>

text \<open>
  The dispatch over the six method names. The three methods that call numpy's
  pseudo-inverse and scipy's SLSQP optimiser (\<open>min_variance\<close>, \<open>max_sharpe\<close>,
  \<open>max_omega\<close>) are outside this development: their results are the parameter
  \<open>numeric\<close>; \<open>np_std\<close> is the parameter of risk parity. An unknown method name
  leaves the portfolio unchanged.
\<close>

definition optimize_allocations ::
  "(string \<Rightarrow> (string \<times> StrategyModel) list \<Rightarrow> (string \<times> real) list)
     \<Rightarrow> (real list \<Rightarrow> real) \<Rightarrow> PortfolioModel \<Rightarrow> string \<Rightarrow> PortfolioModel" where
  "optimize_allocations numeric np_std p method =
     (if method \<in> set [''equal_weight'', ''risk_parity'', ''min_variance'',
                        ''max_sharpe'', ''max_omega'', ''kelly'']
      then normalize_allocations
             (p\<lparr>allocations :=
                  (if method = ''equal_weight'' then equal_weight_allocation (strategies p)
                   else if method = ''risk_parity'' then risk_parity_allocation np_std (strategies p)
                   else if method = ''kelly'' then kelly_allocation (strategies p)
                   else numeric method (strategies p))\<rparr>)
      else p)"

subsection \<open>\<open>_get_returns_matrix\<close>\<close>

text \<open>
  The first loop collects the usable series and the running minimum of their
  lengths, which starts at \<^verbatim>\<open>float('inf')\<close>.
\<close>

fun collect_returns ::
  "StrategyModel list \<Rightarrow> real list list \<times> enat \<Rightarrow> real list list \<times> enat" where
  "collect_returns [] acc = acc"
| "collect_returns (s # ss) (returns_list, min_length) =
     (case returns s of
        None \<Rightarrow> collect_returns ss (returns_list, min_length)
      | Some r \<Rightarrow>
          if length r > 0
          then collect_returns ss (returns_list @ [r], min min_length (enat (length r)))
          else collect_returns ss (returns_list, min_length))"

text \<open>
  The slice \<^verbatim>\<open>returns[-n:]\<close>: the last \<open>n\<close> elements, the whole array when
  \<open>n\<close> exceeds its length, and the whole array as well when \<open>n = 0\<close>.
\<close>

definition slice_last :: "nat \<Rightarrow> 'a list \<Rightarrow> 'a list" where
  "slice_last n xs = (if n = 0 then xs else drop (length xs - n) xs)"

definition get_returns_matrix :: "(string \<times> StrategyModel) list \<Rightarrow> real list list option" where
  "get_returns_matrix strats =
     (if strats = [] then None
      else case collect_returns (map snd strats) ([], \<infinity>) of
             (returns_list, min_length) \<Rightarrow>
               (case min_length of
                  \<infinity> \<Rightarrow> None
                | enat n \<Rightarrow>
                    if returns_list = [] \<or> n < 1 then None
                    else Some (map (slice_last n) returns_list)))"

text \<open>The usable series of a portfolio, in the order of the dictionary.\<close>

definition valid_series :: "(string \<times> StrategyModel) list \<Rightarrow> real list list" where
  "valid_series strats =
     filter (\<lambda>r. r \<noteq> []) (List.map_filter returns (map snd strats))"

subsection \<open>Auxiliary notions for the statements\<close>

text \<open>The weight the Kelly loop stores for one strategy, before renormalisation.\<close>

definition kelly_weight :: "StrategyModel \<Rightarrow> real" where
  "kelly_weight strategy =
     (case map_of (metrics strategy) ''kelly_criterion'' of
        Some kelly \<Rightarrow> fin_val (kelly_fraction kelly)
      | None \<Rightarrow> 2/100)"

text \<open>
  The Kelly allocation as the specification words it (``Kelly criterion capped to
  \<open>[0, 0.25]\<close>'', 0.02 without the metric, renormalised), for comparison with the
  code.
\<close>

definition kelly_allocation_as_specified ::
  "(string \<times> StrategyModel) list \<Rightarrow> (string \<times> real) list" where
  "kelly_allocation_as_specified strats =
     (let allocs = map (\<lambda>(nm, strategy).
                     (nm, case map_of (metrics strategy) ''kelly_criterion'' of
                            Some kelly \<Rightarrow> fin_val (py_max (Fin 0) (py_min kelly (Fin (25/100))))
                          | None \<Rightarrow> 2/100)) strats;
          total = sum_list (map snd allocs)
      in map (\<lambda>(nm, v). (nm, v / total)) allocs)"


definition inv_vol :: "(real list \<Rightarrow> real) \<Rightarrow> StrategyModel \<Rightarrow> real" where
  "inv_vol np_std strategy = (case returns strategy of None \<Rightarrow> 0 | Some r \<Rightarrow> 1 / np_std r)"

section \<open>Stress test engine (models/stress_test_engine.py)\<close>

text \<open>
  The dataclass \<open>StressScenario\<close>. Its fields \<open>description\<close> and \<open>period\<close> are
  display texts that no computation reads; they are left out. Names are byte
  strings (UTF-8), as the accented letters of the last scenario show.
\<close>

record StressScenario =
  name :: string
  sharpe_impact :: real
  omega_impact :: real
  volatility_multiplier :: real
  drawdown_multiplier :: real
  win_rate_impact :: real
  duration_months :: int

subsection \<open>\<open>StressTestEngine._create_historical_scenarios\<close>\<close>

definition create_historical_scenarios :: "StressScenario list" where
  "create_historical_scenarios =
     [\<lparr>name = ''Black Monday 1987'', sharpe_impact = - 25/10, omega_impact = - 6/10,
       volatility_multiplier = 32/10, drawdown_multiplier = 45/10,
       win_rate_impact = - 35/100, duration_months = 6\<rparr>,
      \<lparr>name = ''Dot-com Crash 2000'', sharpe_impact = - 18/10, omega_impact = - 45/100,
       volatility_multiplier = 21/10, drawdown_multiplier = 28/10,
       win_rate_impact = - 25/100, duration_months = 24\<rparr>,
      \<lparr>name = ''Lehman Crisis 2008'', sharpe_impact = - 32/10, omega_impact = - 8/10,
       volatility_multiplier = 41/10, drawdown_multiplier = 52/10,
       win_rate_impact = - 42/100, duration_months = 18\<rparr>,
      \<lparr>name = ''Flash Crash 2010'', sharpe_impact = - 38/10, omega_impact = - 7/10,
       volatility_multiplier = 62/10, drawdown_multiplier = 45/10,
       win_rate_impact = - 48/100, duration_months = 1\<rparr>,
      \<lparr>name = ''COVID-19 2020'', sharpe_impact = - 21/10, omega_impact = - 52/100,
       volatility_multiplier = 53/10, drawdown_multiplier = 38/10,
       win_rate_impact = - 38/100, duration_months = 3\<rparr>,
      \<lparr>name = ''Taux Fed 2022'', sharpe_impact = - 12/10, omega_impact = - 28/100,
       volatility_multiplier = 19/10, drawdown_multiplier = 21/10,
       win_rate_impact = - 18/100, duration_months = 12\<rparr>,
      \<lparr>name = ''Extr'' @ [CHR 0xC3, CHR 0xAA] @ ''me Synth'' @ [CHR 0xC3, CHR 0xA9] @ ''tique'',
       sharpe_impact = - 5, omega_impact = - 12/10,
       volatility_multiplier = 10, drawdown_multiplier = 8,
       win_rate_impact = - 70/100, duration_months = 36\<rparr>]"

subsection \<open>\<open>StressTestEngine._calculate_scenario_severity\<close>\<close>

text \<open>
  \<^verbatim>\<open>min(1.0, np.mean(factors))\<close> over the five factors of the source, in its order.
\<close>

definition calculate_scenario_severity :: "StressScenario \<Rightarrow> real" where
  "calculate_scenario_severity scenario =
     (let factors =
        [\<bar>sharpe_impact scenario\<bar> / 5,
         \<bar>omega_impact scenario\<bar> / (12/10),
         (volatility_multiplier scenario - 1) / 9,
         (drawdown_multiplier scenario - 1) / 7,
         \<bar>win_rate_impact scenario\<bar> / (7/10)]
      in min 1 (sum_list factors / real (length factors)))"

section \<open>Formula evaluation by the engines\<close>

text \<open>
  The three engines hand the formula text to Python's \<open>eval\<close> inside a
  \<^verbatim>\<open>try: ... except Exception\<close> block and convert the result with \<open>float\<close>. What
  the interpreter and numpy do with a given text is not part of this repository;
  the outcome of the protected block up to and including \<^verbatim>\<open>float(result)\<close> is
  either an exception or a float, which may be infinite or NaN.
\<close>

datatype eval_result = Raised | Returned pyfloat

subsection \<open>\<open>StressTestEngine._calculate_allocation\<close>\<close>

text \<open>
  \<^verbatim>\<open>return max(0, min(100, float(result)))\<close>, and \<^verbatim>\<open>return 5.0\<close> in the handler.
\<close>

definition calculate_allocation :: "eval_result \<Rightarrow> real" where
  "calculate_allocation r =
     (case r of
        Returned result \<Rightarrow> fin_val (py_max (Fin 0) (py_min (Fin 100) result))
      | Raised \<Rightarrow> 5)"

subsection \<open>\<open>OverfittingDetector._evaluate_formula\<close>\<close>

text \<open>
  \<^verbatim>\<open>return min(50, max(0, float(result)))\<close>, and \<^verbatim>\<open>return 10.0\<close> in the handler.
\<close>

definition evaluate_formula :: "eval_result \<Rightarrow> real" where
  "evaluate_formula r =
     (case r of
        Returned result \<Rightarrow> fin_val (py_min (Fin 50) (py_max (Fin 0) result))
      | Raised \<Rightarrow> 10)"

section \<open>Monte Carlo engine (models/monte_carlo_engine.py)\<close>

subsection \<open>\<open>MonteCarloEngine._calculate_allocations\<close>\<close>

text \<open>
  The body of the loop for one simulation:
  \<^verbatim>\<open>allocation = float(result); allocation = max(0, min(100, allocation))\<close>, and
  \<^verbatim>\<open>allocations[i] = 5.0\<close> in the handler. The loop runs it for every simulation,
  each with the outcome of its own evaluation.
\<close>

definition trial_allocation :: "eval_result \<Rightarrow> real" where
  "trial_allocation r =
     (case r of
        Returned allocation \<Rightarrow> fin_val (py_max (Fin 0) (py_min (Fin 100) allocation))
      | Raised \<Rightarrow> 5)"

definition calculate_allocations :: "eval_result list \<Rightarrow> real list" where
  "calculate_allocations results = map trial_allocation results"

subsection \<open>\<open>MonteCarloEngine._simulate_returns\<close>\<close>

text \<open>
  The random draws one trial makes, in the order of the source:
  \<^verbatim>\<open>np.random.random()\<close> of the ruin check, \<^verbatim>\<open>np.random.uniform(0.7, 1.0)\<close> of a
  ruin, the array \<^verbatim>\<open>np.random.normal(daily_expected_return, daily_volatility, horizon)\<close>,
  and for each of the \<^verbatim>\<open>np.random.poisson(...)\<close> tail events its day
  (\<^verbatim>\<open>np.random.randint(0, horizon)\<close>, an index of the array), its
  \<^verbatim>\<open>np.random.random()\<close> and the size drawn in the branch taken
  (\<^verbatim>\<open>uniform(0.05, 0.15)\<close> or \<^verbatim>\<open>uniform(0.03, 0.08)\<close>).
\<close>

record trial_draws =
  ruin_draw :: real
  ruin_loss :: real
  daily_draws :: "real list"
  tail_events :: "(nat \<times> real \<times> real) list"

fun apply_tail_events :: "real \<Rightarrow> (nat \<times> real \<times> real) list \<Rightarrow> real list \<Rightarrow> real list" where
  "apply_tail_events allocation [] daily_returns = daily_returns"
| "apply_tail_events allocation ((day, coin, amount) # rest) daily_returns =
     apply_tail_events allocation rest
       (if coin < 7/10 + allocation * (2/10)
        then daily_returns[day := daily_returns ! day - allocation * amount]
        else daily_returns[day := daily_returns ! day + allocation * amount])"

text \<open>One iteration of the loop over the simulations.\<close>

definition simulate_trial :: "nat \<Rightarrow> real \<Rightarrow> trial_draws \<Rightarrow> real" where
  "simulate_trial horizon allocation_percent d =
     (let allocation = allocation_percent / 100;
          ruin_probability = (allocation - 5/10) * (2/100)
      in if allocation > 5/10 \<and> ruin_draw d < ruin_probability * real horizon
         then - allocation * ruin_loss d
         else let daily_returns = apply_tail_events allocation (tail_events d) (daily_draws d);
                  cumulative_return = prod_list (map (\<lambda>r. 1 + r) daily_returns) - 1
              in max (- 1) cumulative_return)"

definition simulate_returns :: "real list \<Rightarrow> nat \<Rightarrow> trial_draws list \<Rightarrow> real list" where
  "simulate_returns allocs horizon draws =
     map (\<lambda>(allocation_percent, d). simulate_trial horizon allocation_percent d) (zip allocs draws)"

section \<open>Overfitting detector (models/overfitting_detector.py)\<close>

subsection \<open>\<open>OverfittingDetector.analyze_formula_overfitting\<close>\<close>





section \<open>Facts about dictionaries and sums\<close>

lemma update_fresh: "k \<notin> fst ` set al \<Longrightarrow> AList.update k v al = al @ [(k, v)]"
  by (induction al) (auto simp: AList.update.simps)

lemma sum_scaled:
  fixes al :: "('k \<times> real) list"
  shows "sum_list (map snd (map (\<lambda>(nm, v). (nm, v / t)) al)) = sum_list (map snd al) / t"
  by (induction al) (auto simp: add_divide_distrib)

lemma sum_normalized:
  fixes al :: "('k \<times> real) list"
  assumes "0 < sum_list (map snd al)"
  shows "sum_list (map snd (map (\<lambda>(nm, v). (nm, v / sum_list (map snd al))) al)) = 1"
  using assms by (simp only: sum_scaled) simp

lemma scale_by_1:
  fixes al :: "('k \<times> real) list"
  shows "map (\<lambda>(nm, v). (nm, v / 1)) al = al"
  by (induction al) auto

lemma normalize_fixed:
  assumes "sum_list (map snd (allocations p)) = 1 \<or> sum_list (map snd (allocations p)) \<le> 0"
  shows "normalize_allocations p = p"
  using assms by (auto simp: normalize_allocations_def Let_def scale_by_1)

lemma sum_pos_iff:
  fixes xs :: "real list"
  assumes "\<forall>x\<in>set xs. 0 \<le> x"
  shows "0 < sum_list xs \<longleftrightarrow> (\<exists>x\<in>set xs. 0 < x)"
  using assms
proof (induction xs)
  case Nil
  then show ?case by simp
next
  case (Cons a xs)
  then have "0 \<le> sum_list xs" by (simp add: sum_list_nonneg)
  with Cons show ?case by (auto simp: add_pos_nonneg add_nonneg_pos) 
qed


section \<open>Omega ratio\<close>

lemma sum_list_nonneg_eq_0:
  fixes xs :: "real list"
  assumes "\<forall>x\<in>set xs. 0 \<le> x"
  shows "sum_list xs = 0 \<longleftrightarrow> (\<forall>x\<in>set xs. x = 0)"
  using assms by (induction xs) (auto simp: add_nonneg_eq_0_iff sum_list_nonneg)

lemma gains_as_max:
  fixes rs :: "real list"
  shows "sum_list (map (\<lambda>r. r - 0) (filter (\<lambda>r. r > 0) rs)) = (\<Sum>r\<leftarrow>rs. max r 0)"
  by (induction rs) auto

lemma losses_as_max:
  fixes rs :: "real list"
  shows "sum_list (map (\<lambda>r. 0 - r) (filter (\<lambda>r. r \<le> 0) rs)) = (\<Sum>r\<leftarrow>rs. max (- r) 0)"
  by (induction rs) auto

lemma losses_zero_iff:
  fixes rs :: "real list"
  shows "(\<Sum>r\<leftarrow>rs. max (- r) 0) = 0 \<longleftrightarrow> (\<forall>r\<in>set rs. 0 \<le> r)"
proof -
  have "(\<Sum>r\<leftarrow>rs. max (- r) 0) = 0 \<longleftrightarrow> (\<forall>x\<in>set (map (\<lambda>r. max (- r) 0) rs). x = 0)"
    by (rule sum_list_nonneg_eq_0) auto
  also have "\<dots> \<longleftrightarrow> (\<forall>r\<in>set rs. max (- r) 0 = 0)"
    by simp
  also have "\<dots> \<longleftrightarrow> (\<forall>r\<in>set rs. 0 \<le> r)"
    by (intro ball_cong refl) (simp add: max_def)
  finally show ?thesis .
qed

text \<open>
  C3. With threshold 0 the Omega ratio is the infinite sentinel exactly when the
  series has no shortfall (no return at or below 0, or only shortfalls that sum
  to 0, which is: no negative return); otherwise it is the sum of the gains
  divided by the sum of the shortfalls. An all-positive series gives the
  sentinel. The function is total: no input raises.
\<close>

theorem omega_ratio_threshold_0:
  "calculate_omega_ratio rs 0 =
     (if filter (\<lambda>r. r \<le> 0) rs = [] \<or> (\<Sum>r\<leftarrow>rs. max (- r) 0) = 0 then PosInf
      else Fin ((\<Sum>r\<leftarrow>rs. max r 0) / (\<Sum>r\<leftarrow>rs. max (- r) 0)))
   \<and> (calculate_omega_ratio rs 0 = PosInf \<longleftrightarrow> (\<forall>r\<in>set rs. 0 \<le> r))
   \<and> ((\<forall>r\<in>set rs. 0 < r) \<longrightarrow> calculate_omega_ratio rs 0 = PosInf)"
proof -
  have eq: "calculate_omega_ratio rs 0 =
     (if filter (\<lambda>r. r \<le> 0) rs = [] \<or> (\<Sum>r\<leftarrow>rs. max (- r) 0) = 0 then PosInf
      else Fin ((\<Sum>r\<leftarrow>rs. max r 0) / (\<Sum>r\<leftarrow>rs. max (- r) 0)))"
    unfolding calculate_omega_ratio_def Let_def
    by (simp only: gains_as_max losses_as_max length_0_conv map_is_Nil_conv)
  have empty: "filter (\<lambda>r. r \<le> 0) rs = [] \<Longrightarrow> \<forall>r\<in>set rs. 0 \<le> r"
    by (auto simp: filter_empty_conv)
  have inf: "calculate_omega_ratio rs 0 = PosInf \<longleftrightarrow> (\<forall>r\<in>set rs. 0 \<le> r)"
    using empty by (auto simp: eq losses_zero_iff)
  have pos: "(\<forall>r\<in>set rs. 0 < r) \<longrightarrow> calculate_omega_ratio rs 0 = PosInf"
    using inf by (auto intro: less_imp_le)
  from eq inf pos show ?thesis by blast
qed

theorem omega_ratio_threshold_0_witness:
  "calculate_omega_ratio [1/100, -2/100, 3/100] 0 = Fin 2
   \<and> calculate_omega_ratio [1/100, 3/100] 0 = PosInf"
  using omega_ratio_threshold_0 [of "[1/100, -2/100, 3/100]"]
        omega_ratio_threshold_0 [of "[1/100, 3/100]"]
  by simp

section \<open>Return matrix\<close>

lemma valid_series_simps:
  "valid_series [] = []"
  "valid_series (p # ps) =
     (case returns (snd p) of None \<Rightarrow> valid_series ps
      | Some r \<Rightarrow> if r = [] then valid_series ps else r # valid_series ps)"
  by (auto simp: valid_series_def List.map_filter_simps split: option.splits)

lemma collect_returns_eq:
  "collect_returns (map snd ps) (acc, m) =
     (acc @ valid_series ps, fold (\<lambda>r m. min m (enat (length r))) (valid_series ps) m)"
  by (induction ps arbitrary: acc m) (auto simp: valid_series_simps split: option.splits)

lemma fold_min_enat:
  "fold (\<lambda>r m. min m (enat (length r))) rs m =
     (if rs = [] then m else min m (enat (Min (length ` set rs))))"
proof (induction rs arbitrary: m)
  case Nil
  then show ?case by simp
next
  case (Cons r rs)
  show ?case
  proof (cases "rs = []")
    case True
    then show ?thesis by simp
  next
    case False
    then have "Min (length ` set (r # rs)) = min (length r) (Min (length ` set rs))"
      by (simp add: Min_insert)
    then show ?thesis using False Cons
      by (simp add: min.assoc min_enat_simps)
  qed
qed

lemma Min_length_pos:
  assumes "rs \<noteq> []" "\<forall>r\<in>set rs. r \<noteq> []"
  shows "0 < Min (length ` set rs)"
  using assms by (subst Min_gr_iff) auto

lemma valid_series_nonempty: "\<forall>r\<in>set (valid_series strats). r \<noteq> []"
  by (simp add: valid_series_def)

lemma get_returns_matrix_eq:
  "get_returns_matrix strats =
     (if valid_series strats = [] then None
      else Some (map (\<lambda>r. drop (length r - Min (length ` set (valid_series strats))) r)
                     (valid_series strats)))"
proof (cases "valid_series strats = []")
  case True
  then show ?thesis
    by (auto simp: get_returns_matrix_def collect_returns_eq fold_min_enat split: enat.splits)
next
  case False
  then have pos: "0 < Min (length ` set (valid_series strats))"
    using Min_length_pos valid_series_nonempty by blast
  from False have ne: "strats \<noteq> []"
    by (auto simp: valid_series_simps)
  from False pos ne show ?thesis
    by (simp add: get_returns_matrix_def collect_returns_eq fold_min_enat slice_last_def)
qed

text \<open>
  C6. The return matrix is \<open>None\<close> exactly when the portfolio has no strategy with
  a non-empty return series; otherwise it has one row per such strategy, in the
  order of the dictionary, each row being the last \<open>m\<close> observations of its series,
  where \<open>m \<ge> 1\<close> is the length of the shortest series: every row has length \<open>m\<close>
  and is a suffix (the most recent observations) of the series it comes from.
\<close>

theorem returns_matrix_right_aligned:
  "get_returns_matrix strats =
     (if valid_series strats = [] then None
      else Some (map (\<lambda>r. drop (length r - Min (length ` set (valid_series strats))) r)
                     (valid_series strats)))
   \<and> (\<forall>rows. get_returns_matrix strats = Some rows \<longrightarrow>
         rows \<noteq> [] \<and> length rows = length (valid_series strats)
         \<and> 0 < Min (length ` set (valid_series strats))
         \<and> (\<forall>row\<in>set rows. length row = Min (length ` set (valid_series strats)))
         \<and> (\<forall>i<length rows. suffix (rows ! i) (valid_series strats ! i)))"
proof -
  let ?v = "valid_series strats"
  let ?m = "Min (length ` set ?v)"
  have shape: "rows \<noteq> [] \<and> length rows = length ?v \<and> 0 < ?m
         \<and> (\<forall>row\<in>set rows. length row = ?m)
         \<and> (\<forall>i<length rows. suffix (rows ! i) (?v ! i))"
    if some: "get_returns_matrix strats = Some rows" for rows
  proof -
  from some have ne: "?v \<noteq> []"
    by (auto simp: get_returns_matrix_eq split: if_splits)
  with some have rows: "rows = map (\<lambda>r. drop (length r - ?m) r) ?v"
    by (simp add: get_returns_matrix_eq)
    have a: "rows \<noteq> []" using ne rows by simp
    have b: "length rows = length ?v" using rows by simp
    have c: "0 < ?m" using ne Min_length_pos valid_series_nonempty by blast
    have d: "\<forall>row\<in>set rows. length row = ?m"
    proof
      fix row assume "row \<in> set rows"
      then obtain r where r: "r \<in> set ?v" "row = drop (length r - ?m) r"
        using rows by auto
      then have "?m \<le> length r" by simp
      with r show "length row = ?m" by simp
    qed
    have e: "\<forall>i<length rows. suffix (rows ! i) (?v ! i)"
      using rows by (simp add: suffix_drop)
    from a b c d e show ?thesis by blast
  qed
  from get_returns_matrix_eq [of strats] shape show ?thesis by blast
qed

theorem returns_matrix_right_aligned_witness:
  "get_returns_matrix
     [(''A'', \<lparr>returns = Some [1, 2, 3], metrics = []\<rparr>),
      (''B'', \<lparr>returns = None, metrics = []\<rparr>),
      (''C'', \<lparr>returns = Some [], metrics = []\<rparr>),
      (''D'', \<lparr>returns = Some [4, 5], metrics = []\<rparr>)] = Some [[2, 3], [4, 5]]
   \<and> get_returns_matrix
     [(''B'', \<lparr>returns = None, metrics = []\<rparr>),
      (''C'', \<lparr>returns = Some [], metrics = []\<rparr>)] = None"
  using returns_matrix_right_aligned
          [of "[(''A'', \<lparr>returns = Some [1, 2, 3], metrics = []\<rparr>),
      (''B'', \<lparr>returns = None, metrics = []\<rparr>),
      (''C'', \<lparr>returns = Some [], metrics = []\<rparr>),
      (''D'', \<lparr>returns = Some [4, 5], metrics = []\<rparr>)]"]
        returns_matrix_right_aligned
          [of "[(''B'', \<lparr>returns = None, metrics = []\<rparr>),
      (''C'', \<lparr>returns = Some [], metrics = []\<rparr>)]"]
  by (simp add: valid_series_simps)

section \<open>Scenario severity\<close>

lemma severity_mono_general:
  assumes "volatility_multiplier b \<le> volatility_multiplier a"
      and "drawdown_multiplier b \<le> drawdown_multiplier a"
      and "\<bar>sharpe_impact b\<bar> \<le> \<bar>sharpe_impact a\<bar>"
      and "\<bar>omega_impact b\<bar> \<le> \<bar>omega_impact a\<bar>"
      and "\<bar>win_rate_impact b\<bar> \<le> \<bar>win_rate_impact a\<bar>"
  shows "calculate_scenario_severity b \<le> calculate_scenario_severity a"
proof -
  have "\<bar>sharpe_impact b\<bar> / 5 \<le> \<bar>sharpe_impact a\<bar> / 5"
       "\<bar>omega_impact b\<bar> / (12/10) \<le> \<bar>omega_impact a\<bar> / (12/10)"
       "(volatility_multiplier b - 1) / 9 \<le> (volatility_multiplier a - 1) / 9"
       "(drawdown_multiplier b - 1) / 7 \<le> (drawdown_multiplier a - 1) / 7"
       "\<bar>win_rate_impact b\<bar> / (7/10) \<le> \<bar>win_rate_impact a\<bar> / (7/10)"
    using assms by (simp_all add: divide_right_mono)
  then have "sum_list [\<bar>sharpe_impact b\<bar> / 5, \<bar>omega_impact b\<bar> / (12/10),
         (volatility_multiplier b - 1) / 9, (drawdown_multiplier b - 1) / 7,
         \<bar>win_rate_impact b\<bar> / (7/10)]
       \<le> sum_list [\<bar>sharpe_impact a\<bar> / 5, \<bar>omega_impact a\<bar> / (12/10),
         (volatility_multiplier a - 1) / 9, (drawdown_multiplier a - 1) / 7,
         \<bar>win_rate_impact a\<bar> / (7/10)]"
    (is "?sb \<le> ?sa")
    unfolding sum_list.Cons sum_list.Nil by (intro add_mono order_refl)
  then have "min 1 (?sb / 5) \<le> min 1 (?sa / 5)"
    by (intro min.mono order_refl divide_right_mono) simp_all
  then show ?thesis
    unfolding calculate_scenario_severity_def Let_def
    by (simp only: list.size of_nat_numeral of_nat_add of_nat_1 one_add_one
          numeral_plus_one add_0 semiring_norm of_nat_Suc of_nat_0) 
qed

lemma table_dominance:
  assumes "a \<in> set create_historical_scenarios" "b \<in> set create_historical_scenarios"
      and "volatility_multiplier b < volatility_multiplier a"
      and "drawdown_multiplier b < drawdown_multiplier a"
  shows "\<bar>sharpe_impact b\<bar> \<le> \<bar>sharpe_impact a\<bar> \<and> \<bar>omega_impact b\<bar> \<le> \<bar>omega_impact a\<bar>
         \<and> \<bar>win_rate_impact b\<bar> \<le> \<bar>win_rate_impact a\<bar>"
  using assms unfolding create_historical_scenarios_def
  by (elim set_ConsD [elim_format] disjE) simp_all

text \<open>
  C7. Of any two scenarios of the built-in table, the only scenarios the engine
  runs, the one with strictly larger volatility and drawdown multipliers never has
  the lower severity score (the mean of the five normalised shock magnitudes,
  capped at 1). The formula is not an input of the score.
\<close>

theorem scenario_severity_monotone_on_table:
  "\<forall>x\<in>set create_historical_scenarios. \<forall>y\<in>set create_historical_scenarios.
     volatility_multiplier y < volatility_multiplier x
       \<and> drawdown_multiplier y < drawdown_multiplier x
     \<longrightarrow> calculate_scenario_severity y \<le> calculate_scenario_severity x"
proof (intro ballI impI)
  fix x y
  assume x: "x \<in> set create_historical_scenarios"
     and y: "y \<in> set create_historical_scenarios"
     and larger: "volatility_multiplier y < volatility_multiplier x
       \<and> drawdown_multiplier y < drawdown_multiplier x"
  from larger have vm: "volatility_multiplier y < volatility_multiplier x"
    and dm: "drawdown_multiplier y < drawdown_multiplier x" by simp_all
  from table_dominance [OF x y vm dm] vm dm
  show "calculate_scenario_severity y \<le> calculate_scenario_severity x"
    by (intro severity_mono_general) simp_all
qed

theorem scenario_severity_monotone_on_table_witness:
  "create_historical_scenarios ! 2 \<in> set create_historical_scenarios
   \<and> create_historical_scenarios ! 0 \<in> set create_historical_scenarios
   \<and> volatility_multiplier (create_historical_scenarios ! 0)
     < volatility_multiplier (create_historical_scenarios ! 2)
   \<and> drawdown_multiplier (create_historical_scenarios ! 0)
     < drawdown_multiplier (create_historical_scenarios ! 2)
   \<and> calculate_scenario_severity (create_historical_scenarios ! 0)
     \<le> calculate_scenario_severity (create_historical_scenarios ! 2)"
proof -
  have x: "create_historical_scenarios ! 2 \<in> set create_historical_scenarios"
    and y: "create_historical_scenarios ! 0 \<in> set create_historical_scenarios"
    by (simp_all add: create_historical_scenarios_def)
  have larger: "volatility_multiplier (create_historical_scenarios ! 0)
       < volatility_multiplier (create_historical_scenarios ! 2)
     \<and> drawdown_multiplier (create_historical_scenarios ! 0)
       < drawdown_multiplier (create_historical_scenarios ! 2)"
    by (simp add: create_historical_scenarios_def)
  from scenario_severity_monotone_on_table x y larger
  have "calculate_scenario_severity (create_historical_scenarios ! 0)
     \<le> calculate_scenario_severity (create_historical_scenarios ! 2)"
    by blast
  with x y larger show ?thesis by simp
qed

section \<open>Kelly allocation\<close>

lemma kelly_fraction_cases:
  "kelly_fraction kelly =
     Fin (case kelly of Fin k \<Rightarrow> max 0 (min (k / 4) (1 / 4)) | PosInf \<Rightarrow> 1 / 4
          | NegInf \<Rightarrow> 0 | NaN \<Rightarrow> 0)"
  by (cases kelly) (auto simp: kelly_fraction_def py_min_def py_max_def)

lemma kelly_weight_cases:
  "kelly_weight s =
     (case map_of (metrics s) ''kelly_criterion'' of
        None \<Rightarrow> 2 / 100
      | Some (Fin k) \<Rightarrow> max 0 (min (k / 4) (1 / 4))
      | Some PosInf \<Rightarrow> 1 / 4
      | Some NegInf \<Rightarrow> 0
      | Some NaN \<Rightarrow> 0)"
  by (simp add: kelly_weight_def kelly_fraction_cases split: option.splits pyfloat.splits)

lemma kelly_weight_range: "0 \<le> kelly_weight s \<and> kelly_weight s \<le> 1 / 4"
  by (auto simp: kelly_weight_cases max_def min_def split: option.splits pyfloat.splits)

lemma kelly_loop_eq:
  assumes "distinct (map fst strats)" "fst ` set strats \<inter> fst ` set allocs = {}"
  shows "kelly_loop strats allocs = allocs @ map (\<lambda>(nm, s). (nm, kelly_weight s)) strats"
  using assms
proof (induction strats arbitrary: allocs)
  case Nil
  then show ?case by simp
next
  case (Cons a strats)
  obtain nm s where a: "a = (nm, s)" by (cases a)
  have fresh: "nm \<notin> fst ` set allocs" using Cons.prems a by auto
  have disj: "fst ` set strats \<inter> fst ` set (allocs @ [(nm, v)]) = {}" for v
    using Cons.prems a by auto
  have d: "distinct (map fst strats)" using Cons.prems by simp
  show ?case
    using Cons.IH [OF d disj] fresh
    by (simp add: a update_fresh kelly_weight_def split: option.splits)
qed

lemma kelly_allocation_sum:
  "sum_list (map snd (kelly_allocation strats)) = 1 \<or> sum_list (map snd (kelly_allocation strats)) \<le> 0"
  using sum_normalized [of "kelly_loop strats []"]
  by (auto simp: kelly_allocation_def Let_def)

lemma kelly_allocation_eq:
  assumes "distinct (map fst strats)"
  shows "kelly_allocation strats =
       (let total = sum_list (map (\<lambda>(nm, s). kelly_weight s) strats)
        in map (\<lambda>(nm, s). (nm, if total > 0 then kelly_weight s / total else kelly_weight s))
             strats)"
proof -
  have loop: "kelly_loop strats [] = map (\<lambda>(nm, s). (nm, kelly_weight s)) strats"
    using kelly_loop_eq [OF assms, of "[]"] by simp
  have tot: "sum_list (map snd (map (\<lambda>(nm, s). (nm, kelly_weight s)) strats))
      = sum_list (map (\<lambda>(nm, s). kelly_weight s) strats)"
    by (simp add: comp_def case_prod_unfold)
  show ?thesis
    unfolding kelly_allocation_def Let_def loop tot
    by (simp add: comp_def case_prod_unfold)
qed

text \<open>
  C4. The kelly method stores for each strategy a quarter of its Kelly criterion,
  capped to \<open>[0, 0.25]\<close> (0.25 for an infinite criterion, 0 for a NaN), and 0.02
  for a strategy without the metric; when at least one stored weight is positive
  the weights are divided by their sum and then sum to 1, otherwise they all stay
  0. \<open>optimize_allocations\<close> with method \<open>kelly\<close> installs exactly these weights.
\<close>

theorem kelly_allocation_quarter_kelly:
  assumes "distinct (map fst strats)"
  shows "kelly_allocation strats =
       (let total = sum_list (map (\<lambda>(nm, s). kelly_weight s) strats)
        in map (\<lambda>(nm, s). (nm, if total > 0 then kelly_weight s / total else kelly_weight s))
             strats)
     \<and> kelly_weight s =
         (case map_of (metrics s) ''kelly_criterion'' of
            None \<Rightarrow> 2 / 100
          | Some (Fin k) \<Rightarrow> max 0 (min (k / 4) (1 / 4))
          | Some PosInf \<Rightarrow> 1 / 4
          | Some NegInf \<Rightarrow> 0
          | Some NaN \<Rightarrow> 0)
     \<and> ((\<exists>(nm, s)\<in>set strats. 0 < kelly_weight s)
           \<longrightarrow> sum_list (map snd (kelly_allocation strats)) = 1)
     \<and> (\<not> (\<exists>(nm, s)\<in>set strats. 0 < kelly_weight s)
           \<longrightarrow> kelly_allocation strats = map (\<lambda>(nm, s). (nm, 0)) strats)
     \<and> allocations (optimize_allocations numeric np_std (p\<lparr>strategies := strats\<rparr>) ''kelly'')
           = kelly_allocation strats"
proof -
  let ?ws = "map (\<lambda>(nm, s). kelly_weight s) strats"
  have nonneg: "\<forall>x\<in>set ?ws. 0 \<le> x"
    using kelly_weight_range by auto
  have pos: "0 < sum_list ?ws \<longleftrightarrow> (\<exists>(nm, s)\<in>set strats. 0 < kelly_weight s)"
    unfolding sum_pos_iff [OF nonneg] by (force simp: case_prod_unfold)
  have loop: "kelly_loop strats [] = map (\<lambda>(nm, s). (nm, kelly_weight s)) strats"
    using kelly_loop_eq [OF assms, of "[]"] by simp
  have tot: "sum_list (map snd (kelly_loop strats [])) = sum_list ?ws"
    unfolding loop by (simp add: comp_def case_prod_unfold)
  have one: "sum_list (map snd (kelly_allocation strats)) = 1"
    if "\<exists>(nm, s)\<in>set strats. 0 < kelly_weight s"
    using that sum_normalized [of "kelly_loop strats []"] pos tot
    by (simp add: kelly_allocation_def Let_def)
  have zero: "kelly_allocation strats = map (\<lambda>(nm, s). (nm, 0)) strats"
    if no: "\<not> (\<exists>(nm, s)\<in>set strats. 0 < kelly_weight s)"
  proof -
    have "kelly_weight s = 0" if "(nm, s) \<in> set strats" for nm s
      using no that kelly_weight_range [of s] by force
    then have "map (\<lambda>(nm, s). (nm, kelly_weight s)) strats = map (\<lambda>(nm, s). (nm, 0)) strats"
      by auto
    with no pos tot loop show ?thesis
      by (simp add: kelly_allocation_def Let_def)
  qed
  have opt: "allocations (optimize_allocations numeric np_std (p\<lparr>strategies := strats\<rparr>) ''kelly'')
           = kelly_allocation strats"
    using normalize_fixed [of "p\<lparr>strategies := strats, allocations := kelly_allocation strats\<rparr>"]
          kelly_allocation_sum [of strats]
    by (simp add: optimize_allocations_def)
  from kelly_allocation_eq [OF assms] kelly_weight_cases [of s] one zero opt
  show ?thesis by blast
qed

theorem kelly_allocation_quarter_kelly_witness:
  "kelly_allocation
     [(''A'', \<lparr>returns = Some [3/100, -1/100, 2/100], metrics = [(''kelly_criterion'', Fin (1/5))]\<rparr>),
      (''B'', \<lparr>returns = None, metrics = []\<rparr>),
      (''C'', \<lparr>returns = Some [1/100, 2/100], metrics = [(''kelly_criterion'', NaN)]\<rparr>)] = [(''A'', 5/7), (''B'', 2/7), (''C'', 0)]
   \<and> sum_list (map snd (kelly_allocation
     [(''A'', \<lparr>returns = Some [3/100, -1/100, 2/100], metrics = [(''kelly_criterion'', Fin (1/5))]\<rparr>),
      (''B'', \<lparr>returns = None, metrics = []\<rparr>),
      (''C'', \<lparr>returns = Some [1/100, 2/100], metrics = [(''kelly_criterion'', NaN)]\<rparr>)])) = 1"
  using kelly_allocation_quarter_kelly
     [of "[(''A'', \<lparr>returns = Some [3/100, -1/100, 2/100], metrics = [(''kelly_criterion'', Fin (1/5))]\<rparr>),
      (''B'', \<lparr>returns = None, metrics = []\<rparr>),
      (''C'', \<lparr>returns = Some [1/100, 2/100], metrics = [(''kelly_criterion'', NaN)]\<rparr>)]"]
  by (simp add: kelly_weight_cases)

text \<open>
  With a Kelly criterion of 0.2 and a second strategy without the metric, the
  code stores 0.05 and 0.02, where the cap applied to the criterion itself would
  store 0.2 and 0.02.
\<close>

theorem kelly_allocation_counterexample:
  "kelly_allocation
     [(''A'', \<lparr>returns = Some [3/100, -1/100, 2/100], metrics = [(''kelly_criterion'', Fin (1/5))]\<rparr>),
      (''B'', \<lparr>returns = None, metrics = []\<rparr>)] = [(''A'', 5/7), (''B'', 2/7)]
   \<and> kelly_allocation_as_specified
     [(''A'', \<lparr>returns = Some [3/100, -1/100, 2/100], metrics = [(''kelly_criterion'', Fin (1/5))]\<rparr>),
      (''B'', \<lparr>returns = None, metrics = []\<rparr>)] = [(''A'', 10/11), (''B'', 1/11)]
   \<and> kelly_allocation
     [(''A'', \<lparr>returns = Some [3/100, -1/100, 2/100], metrics = [(''kelly_criterion'', Fin (1/5))]\<rparr>),
      (''B'', \<lparr>returns = None, metrics = []\<rparr>)]
     \<noteq> kelly_allocation_as_specified
     [(''A'', \<lparr>returns = Some [3/100, -1/100, 2/100], metrics = [(''kelly_criterion'', Fin (1/5))]\<rparr>),
      (''B'', \<lparr>returns = None, metrics = []\<rparr>)]"
  by (simp add: kelly_allocation_def kelly_allocation_as_specified_def kelly_fraction_def
        py_min_def py_max_def AList.update.simps)

section \<open>Risk parity\<close>






section \<open>Which operations rescale the allocation mapping\<close>

lemma map_of_delete_other: "k \<noteq> nm \<Longrightarrow> map_of (AList.delete nm al) k = map_of al k"
  by (simp add: delete_conv')

lemma normalize_allocations_pos:
  assumes "0 < sum_list (map snd (allocations p))"
  shows "allocations (normalize_allocations p)
           = map (\<lambda>(key, v). (key, v / sum_list (map snd (allocations p)))) (allocations p)
         \<and> sum_list (map snd (allocations (normalize_allocations p))) = 1"
  using assms sum_normalized [of "allocations p"]
  by (simp add: normalize_allocations_def Let_def)

lemma normalize_allocations_nonpos:
  "sum_list (map snd (allocations p)) \<le> 0 \<Longrightarrow> normalize_allocations p = p"
  by (simp add: normalize_allocations_def)

lemma normalize_allocations_sum:
  "sum_list (map snd (allocations (normalize_allocations p))) = 1
   \<or> sum_list (map snd (allocations (normalize_allocations p))) \<le> 0"
proof (cases "0 < sum_list (map snd (allocations p))")
  case True
  then show ?thesis using normalize_allocations_pos by blast
next
  case False
  then have "normalize_allocations p = p" by (simp add: normalize_allocations_nonpos)
  with False show ?thesis by simp
qed

lemma remove_strategy_frame:
  assumes r: "remove_strategy p nm = Inr p'"
  shows "(\<forall>k. k \<noteq> nm \<longrightarrow> map_of (allocations p') k = map_of (allocations p) k)
         \<and> (p' = p \<or> allocations p' = AList.delete nm (allocations p))"
proof (cases "nm \<in> fst ` set (strategies p)")
  case False
  with r have "p' = p" by (simp add: remove_strategy_def)
  then show ?thesis by simp
next
  case True
  show ?thesis
  proof (cases "nm \<in> fst ` set (allocations p)")
    case False
    with True r show ?thesis by (simp add: remove_strategy_def)
  next
    case inA: True
    with True r have "p' = p\<lparr>strategies := AList.delete nm (strategies p),
                    allocations := AList.delete nm (allocations p)\<rparr>"
      by (simp add: remove_strategy_def)
    then have "allocations p' = AList.delete nm (allocations p)" by simp
    then show ?thesis by (simp add: map_of_delete_other)
  qed
qed

lemma rebalance_eq:
  "rebalance p frequency =
         (if frequency \<in> set [''daily'', ''weekly'', ''monthly'', ''quarterly'', ''yearly'']
          then normalize_allocations p else p)"
  unfolding rebalance_def
  by (cases "frequency \<in> set [''daily'', ''weekly'', ''monthly'', ''quarterly'', ''yearly'']")
     (simp_all only: if_True if_False not_True_eq_False not_False_eq_True)

lemma optimize_known:
  assumes that: "method \<in> set [''equal_weight'', ''risk_parity'', ''min_variance'',
                       ''max_sharpe'', ''max_omega'', ''kelly'']"
  shows "sum_list (map snd (allocations (optimize_allocations numeric np_std p method))) = 1
            \<or> sum_list (map snd (allocations (optimize_allocations numeric np_std p method))) \<le> 0"
proof -
  let ?q = "p\<lparr>allocations :=
                  (if method = ''equal_weight'' then equal_weight_allocation (strategies p)
                   else if method = ''risk_parity'' then risk_parity_allocation np_std (strategies p)
                   else if method = ''kelly'' then kelly_allocation (strategies p)
                   else numeric method (strategies p))\<rparr>"
  have q: "optimize_allocations numeric np_std p method = normalize_allocations ?q"
    unfolding optimize_allocations_def by (simp only: that if_True)
  show ?thesis
    unfolding q by (rule normalize_allocations_sum)
qed

lemma optimize_unknown:
  assumes that: "method \<notin> set [''equal_weight'', ''risk_parity'', ''min_variance'',
                       ''max_sharpe'', ''max_omega'', ''kelly'']"
  shows "optimize_allocations numeric np_std p method = p"
  unfolding optimize_allocations_def by (simp only: that if_False)

lemma add_strategy_keys:
  "strategies (add_strategy p nm strategy allocation) = AList.update nm strategy (strategies p)"
  "map fst (allocations (add_strategy p nm strategy allocation))
         = map fst (AList.update nm allocation (allocations p))"
  by (simp_all add: add_strategy_def normalize_allocations_def Let_def comp_def case_prod_unfold)

text \<open>
  C5. \<open>set_allocation\<close> stores the given weights exactly as supplied and touches
  nothing else; \<open>remove_strategy\<close> leaves every remaining weight as it was. The
  normalisation divides every weight by the sum of the weights when that sum is
  positive (the weights then sum to 1) and changes nothing otherwise; it ends
  \<open>optimize_allocations\<close> (for the six method names) and is the whole of
  \<open>rebalance\<close> (for the five frequencies). With an unknown method or frequency
  the portfolio is unchanged. \<open>add_strategy\<close> stores the strategy and an entry for
  it in the allocation mapping.
\<close>

theorem allocation_rescaling_frame:
  "allocations (set_allocation p allocs) = allocs
   \<and> strategies (set_allocation p allocs) = strategies p
   \<and> (\<forall>p'. remove_strategy p nm = Inr p' \<longrightarrow>
         (\<forall>k. k \<noteq> nm \<longrightarrow> map_of (allocations p') k = map_of (allocations p) k)
         \<and> (p' = p \<or> allocations p' = AList.delete nm (allocations p)))
   \<and> (0 < sum_list (map snd (allocations p)) \<longrightarrow>
         allocations (normalize_allocations p)
           = map (\<lambda>(key, v). (key, v / sum_list (map snd (allocations p)))) (allocations p)
         \<and> sum_list (map snd (allocations (normalize_allocations p))) = 1)
   \<and> (sum_list (map snd (allocations p)) \<le> 0 \<longrightarrow> normalize_allocations p = p)
   \<and> rebalance p frequency =
         (if frequency \<in> set [''daily'', ''weekly'', ''monthly'', ''quarterly'', ''yearly'']
          then normalize_allocations p else p)
   \<and> (method \<in> set [''equal_weight'', ''risk_parity'', ''min_variance'',
                       ''max_sharpe'', ''max_omega'', ''kelly'']
        \<longrightarrow> sum_list (map snd (allocations (optimize_allocations numeric np_std p method))) = 1
            \<or> sum_list (map snd (allocations (optimize_allocations numeric np_std p method))) \<le> 0)
   \<and> (method \<notin> set [''equal_weight'', ''risk_parity'', ''min_variance'',
                       ''max_sharpe'', ''max_omega'', ''kelly'']
        \<longrightarrow> optimize_allocations numeric np_std p method = p)
   \<and> strategies (add_strategy p nm strategy allocation) = AList.update nm strategy (strategies p)
   \<and> map fst (allocations (add_strategy p nm strategy allocation))
         = map fst (AList.update nm allocation (allocations p))"
proof (intro conjI allI impI)
  show "allocations (set_allocation p allocs) = allocs"
    by (simp add: set_allocation_def)
  show "strategies (set_allocation p allocs) = strategies p"
    by (simp add: set_allocation_def)
  show "map_of (allocations p') k = map_of (allocations p) k"
    if "remove_strategy p nm = Inr p'" "k \<noteq> nm" for p' k
    using remove_strategy_frame [OF that(1)] that(2) by blast
  show "p' = p \<or> allocations p' = AList.delete nm (allocations p)"
    if "remove_strategy p nm = Inr p'" for p'
    using remove_strategy_frame [OF that] by blast
  show "allocations (normalize_allocations p)
           = map (\<lambda>(key, v). (key, v / sum_list (map snd (allocations p)))) (allocations p)"
    if "0 < sum_list (map snd (allocations p))"
    using normalize_allocations_pos [OF that] by blast
  show "sum_list (map snd (allocations (normalize_allocations p))) = 1"
    if "0 < sum_list (map snd (allocations p))"
    using normalize_allocations_pos [OF that] by blast
  show "normalize_allocations p = p" if "sum_list (map snd (allocations p)) \<le> 0"
    using that by (rule normalize_allocations_nonpos)
  show "rebalance p frequency =
         (if frequency \<in> set [''daily'', ''weekly'', ''monthly'', ''quarterly'', ''yearly'']
          then normalize_allocations p else p)"
    by (rule rebalance_eq)
  show "sum_list (map snd (allocations (optimize_allocations numeric np_std p method))) = 1
            \<or> sum_list (map snd (allocations (optimize_allocations numeric np_std p method))) \<le> 0"
    if "method \<in> set [''equal_weight'', ''risk_parity'', ''min_variance'',
                       ''max_sharpe'', ''max_omega'', ''kelly'']"
    using that by (rule optimize_known)
  show "optimize_allocations numeric np_std p method = p"
    if "method \<notin> set [''equal_weight'', ''risk_parity'', ''min_variance'',
                       ''max_sharpe'', ''max_omega'', ''kelly'']"
    using that by (rule optimize_unknown)
  show "strategies (add_strategy p nm strategy allocation) = AList.update nm strategy (strategies p)"
    by (rule add_strategy_keys)
  show "map fst (allocations (add_strategy p nm strategy allocation))
         = map fst (AList.update nm allocation (allocations p))"
    by (rule add_strategy_keys)
qed

theorem allocation_rescaling_frame_witness:
  "allocations (set_allocation
       \<lparr>strategies = [(''A'', \<lparr>returns = None, metrics = []\<rparr>), (''B'', \<lparr>returns = None, metrics = []\<rparr>)],
        allocations = [(''A'', 3/2), (''B'', 1/2)]\<rparr>
       [(''A'', 3/2), (''B'', 1/2)]) = [(''A'', 3/2), (''B'', 1/2)]
   \<and> allocations (rebalance
       \<lparr>strategies = [(''A'', \<lparr>returns = None, metrics = []\<rparr>), (''B'', \<lparr>returns = None, metrics = []\<rparr>)],
        allocations = [(''A'', 3/2), (''B'', 1/2)]\<rparr> ''monthly'') = [(''A'', 3/4), (''B'', 1/4)]
   \<and> sum_list (map snd (allocations (rebalance
       \<lparr>strategies = [(''A'', \<lparr>returns = None, metrics = []\<rparr>), (''B'', \<lparr>returns = None, metrics = []\<rparr>)],
        allocations = [(''A'', 3/2), (''B'', 1/2)]\<rparr> ''monthly''))) = 1"
proof -
  have pos: "0 < sum_list (map snd (allocations
       \<lparr>strategies = [(''A'', \<lparr>returns = None, metrics = []\<rparr>), (''B'', \<lparr>returns = None, metrics = []\<rparr>)],
        allocations = [(''A'', 3/2), (''B'', 1/2)]\<rparr>))"
    by simp
  have freq: "''monthly'' \<in> set [''daily'', ''weekly'', ''monthly'', ''quarterly'', ''yearly'']"
    by simp
  note frame = allocation_rescaling_frame
    [of "\<lparr>strategies = [(''A'', \<lparr>returns = None, metrics = []\<rparr>), (''B'', \<lparr>returns = None, metrics = []\<rparr>)],
        allocations = [(''A'', 3/2), (''B'', 1/2)]\<rparr>" "[(''A'', 3/2), (''B'', 1/2)]" _ "''monthly''"]
  have a: "allocations (set_allocation
       \<lparr>strategies = [(''A'', \<lparr>returns = None, metrics = []\<rparr>), (''B'', \<lparr>returns = None, metrics = []\<rparr>)],
        allocations = [(''A'', 3/2), (''B'', 1/2)]\<rparr>
       [(''A'', 3/2), (''B'', 1/2)]) = [(''A'', 3/2), (''B'', 1/2)]"
    using frame by (rule conjunct1)
  have r: "rebalance \<lparr>strategies = [(''A'', \<lparr>returns = None, metrics = []\<rparr>), (''B'', \<lparr>returns = None, metrics = []\<rparr>)],
        allocations = [(''A'', 3/2), (''B'', 1/2)]\<rparr> ''monthly'' = normalize_allocations \<lparr>strategies = [(''A'', \<lparr>returns = None, metrics = []\<rparr>), (''B'', \<lparr>returns = None, metrics = []\<rparr>)],
        allocations = [(''A'', 3/2), (''B'', 1/2)]\<rparr>"
    using frame freq by (simp only: if_True)
  have n: "allocations (normalize_allocations \<lparr>strategies = [(''A'', \<lparr>returns = None, metrics = []\<rparr>), (''B'', \<lparr>returns = None, metrics = []\<rparr>)],
        allocations = [(''A'', 3/2), (''B'', 1/2)]\<rparr>)
           = map (\<lambda>(key, v). (key, v / sum_list (map snd (allocations \<lparr>strategies = [(''A'', \<lparr>returns = None, metrics = []\<rparr>), (''B'', \<lparr>returns = None, metrics = []\<rparr>)],
        allocations = [(''A'', 3/2), (''B'', 1/2)]\<rparr>)))) (allocations \<lparr>strategies = [(''A'', \<lparr>returns = None, metrics = []\<rparr>), (''B'', \<lparr>returns = None, metrics = []\<rparr>)],
        allocations = [(''A'', 3/2), (''B'', 1/2)]\<rparr>)
         \<and> sum_list (map snd (allocations (normalize_allocations \<lparr>strategies = [(''A'', \<lparr>returns = None, metrics = []\<rparr>), (''B'', \<lparr>returns = None, metrics = []\<rparr>)],
        allocations = [(''A'', 3/2), (''B'', 1/2)]\<rparr>))) = 1"
    using frame pos by blast
  from n have b: "allocations (normalize_allocations \<lparr>strategies = [(''A'', \<lparr>returns = None, metrics = []\<rparr>), (''B'', \<lparr>returns = None, metrics = []\<rparr>)],
        allocations = [(''A'', 3/2), (''B'', 1/2)]\<rparr>) = [(''A'', 3/4), (''B'', 1/4)]"
    by simp
  from a b n show ?thesis unfolding r by simp
qed

text \<open>
  Rescaling is not confined to \<open>optimize_allocations\<close>. Starting from the empty
  portfolio: with two strategies added and the manual weights 1.5 and 0.5 set,
  \<open>rebalance\<close> turns them into 0.75 and 0.25; with one strategy added and the
  manual weight 2 set, adding a second strategy with weight 0 (which also ends
  with the normalisation) turns the existing weight into 1.
\<close>

theorem allocation_rescaling_counterexample:
  "allocations (rebalance
      (set_allocation
         (add_strategy (add_strategy \<lparr>strategies = [], allocations = []\<rparr> ''A''
              \<lparr>returns = Some [1/100, -2/100, 3/100], metrics = [(''kelly_criterion'', Fin (1/4))]\<rparr> 0) ''B''
            \<lparr>returns = Some [2/100, -1/100], metrics = [(''kelly_criterion'', Fin 0)]\<rparr> 0)
         [(''A'', 3/2), (''B'', 1/2)])
      ''monthly'') = [(''A'', 3/4), (''B'', 1/4)]
   \<and> allocations (add_strategy
      (set_allocation
         (add_strategy \<lparr>strategies = [], allocations = []\<rparr> ''A''
            \<lparr>returns = Some [1/100, -2/100, 3/100], metrics = [(''kelly_criterion'', Fin (1/4))]\<rparr> 0)
         [(''A'', 2)])
      ''B'' \<lparr>returns = Some [2/100, -1/100], metrics = [(''kelly_criterion'', Fin 0)]\<rparr> 0) = [(''A'', 1), (''B'', 0)]"
  by (simp add: rebalance_def add_strategy_def set_allocation_def normalize_allocations_def
        AList.update.simps)

section \<open>Simulated returns\<close>

lemma clamp_0_100: "0 \<le> fin_val (py_max (Fin 0) (py_min (Fin 100) v))
                    \<and> fin_val (py_max (Fin 0) (py_min (Fin 100) v)) \<le> 100"
  by (cases v) (auto simp: py_min_def py_max_def)

lemma trial_allocation_range: "0 \<le> trial_allocation r \<and> trial_allocation r \<le> 100"
  using clamp_0_100 by (cases r) (auto simp: trial_allocation_def)

lemma simulate_trial_bound:
  assumes a: "0 \<le> a" "a \<le> 100" and u: "7/10 \<le> ruin_loss d" "ruin_loss d \<le> 1"
  shows "- 1 \<le> simulate_trial horizon a d"
proof -
  have "a / 100 * ruin_loss d \<le> 1 * 1"
    using a u by (intro mult_mono) simp_all
  then have "- 1 \<le> - (a / 100) * ruin_loss d" by simp
  then show ?thesis
    by (simp add: simulate_trial_def Let_def)
qed

text \<open>
  C8. Whatever the formula evaluates to in each trial (a float, infinite or NaN
  included, or an exception), and whatever the random draws are (the ruin loss
  being a draw of \<open>uniform(0.7, 1.0)\<close>), every return recorded by the simulation of
  the computed allocations is at least \<open>-1\<close>: the ruin branch records
  \<open>-allocation * loss\<close> with an allocation of at most 100 percent, the other
  branch clamps the compounded return at \<open>-1\<close>. One return is recorded per trial.
\<close>

theorem simulated_returns_at_least_minus_one:
  assumes "\<forall>d\<in>set draws. 7/10 \<le> ruin_loss d \<and> ruin_loss d \<le> 1"
  shows "(\<forall>r\<in>set (simulate_returns (calculate_allocations results) horizon draws). - 1 \<le> r)
     \<and> length (simulate_returns (calculate_allocations results) horizon draws)
         = min (length results) (length draws)"
proof
  show "\<forall>r\<in>set (simulate_returns (calculate_allocations results) horizon draws). - 1 \<le> r"
  proof
    fix r
    assume "r \<in> set (simulate_returns (calculate_allocations results) horizon draws)"
    then obtain a d where ad: "(a, d) \<in> set (zip (calculate_allocations results) draws)"
      and r: "r = simulate_trial horizon a d"
      by (auto simp: simulate_returns_def)
    from ad have "a \<in> set (calculate_allocations results)" and din: "d \<in> set draws"
      by (auto dest: set_zip_leftD set_zip_rightD)
    then obtain res where "a = trial_allocation res"
      by (auto simp: calculate_allocations_def)
    then have "0 \<le> a" "a \<le> 100" using trial_allocation_range by auto
    moreover from din assms have "7/10 \<le> ruin_loss d" "ruin_loss d \<le> 1" by auto
    ultimately show "- 1 \<le> r" unfolding r by (rule simulate_trial_bound)
  qed
  show "length (simulate_returns (calculate_allocations results) horizon draws)
         = min (length results) (length draws)"
    by (simp add: simulate_returns_def calculate_allocations_def)
qed

text \<open>
  Three trials over a horizon of 2 days: an allocation of 80 percent that is
  ruined, the fallback allocation with a compounded return below \<open>-1\<close>, and a
  NaN result (allocation 100 percent) that is ruined.
\<close>

theorem simulated_returns_at_least_minus_one_witness:
  "simulate_returns (calculate_allocations [Returned (Fin 80), Raised, Returned NaN]) 2
       [\<lparr>ruin_draw = 0, ruin_loss = 9/10, daily_draws = [1/100, 2/100], tail_events = []\<rparr>,
        \<lparr>ruin_draw = 1/2, ruin_loss = 7/10, daily_draws = [- 1/2, - 3], tail_events = [(1, 0, 1/10)]\<rparr>,
        \<lparr>ruin_draw = 1/100, ruin_loss = 99/100, daily_draws = [0, 0], tail_events = []\<rparr>]
     = [- 18/25, - 1, - 99/100]
   \<and> - 1 \<le> simulate_returns (calculate_allocations [Returned (Fin 80), Raised, Returned NaN]) 2
       [\<lparr>ruin_draw = 0, ruin_loss = 9/10, daily_draws = [1/100, 2/100], tail_events = []\<rparr>,
        \<lparr>ruin_draw = 1/2, ruin_loss = 7/10, daily_draws = [- 1/2, - 3], tail_events = [(1, 0, 1/10)]\<rparr>,
        \<lparr>ruin_draw = 1/100, ruin_loss = 99/100, daily_draws = [0, 0], tail_events = []\<rparr>] ! 0
   \<and> - 1 \<le> simulate_returns (calculate_allocations [Returned (Fin 80), Raised, Returned NaN]) 2
       [\<lparr>ruin_draw = 0, ruin_loss = 9/10, daily_draws = [1/100, 2/100], tail_events = []\<rparr>,
        \<lparr>ruin_draw = 1/2, ruin_loss = 7/10, daily_draws = [- 1/2, - 3], tail_events = [(1, 0, 1/10)]\<rparr>,
        \<lparr>ruin_draw = 1/100, ruin_loss = 99/100, daily_draws = [0, 0], tail_events = []\<rparr>] ! 2"
proof -
  let ?rs = "simulate_returns (calculate_allocations [Returned (Fin 80), Raised, Returned NaN]) 2
       [\<lparr>ruin_draw = 0, ruin_loss = 9/10, daily_draws = [1/100, 2/100], tail_events = []\<rparr>,
        \<lparr>ruin_draw = 1/2, ruin_loss = 7/10, daily_draws = [- 1/2, - 3], tail_events = [(1, 0, 1/10)]\<rparr>,
        \<lparr>ruin_draw = 1/100, ruin_loss = 99/100, daily_draws = [0, 0], tail_events = []\<rparr>]"
  have draws: "\<forall>d\<in>set [\<lparr>ruin_draw = 0, ruin_loss = 9/10, daily_draws = [1/100, 2/100], tail_events = []\<rparr>,
        \<lparr>ruin_draw = 1/2, ruin_loss = 7/10, daily_draws = [- 1/2, - 3], tail_events = [(1, 0, 1/10)]\<rparr>,
        \<lparr>ruin_draw = 1/100, ruin_loss = 99/100, daily_draws = [0, 0], tail_events = []\<rparr>]. 7/10 \<le> ruin_loss d \<and> ruin_loss d \<le> 1"
    by simp
  have val: "?rs = [- 18/25, - 1, - 99/100]"
    by (simp add: simulate_returns_def calculate_allocations_def trial_allocation_def
        simulate_trial_def py_min_def py_max_def)
  from simulated_returns_at_least_minus_one [OF draws, of "[Returned (Fin 80), Raised, Returned NaN]" 2]
  have all: "\<forall>r\<in>set ?rs. - 1 \<le> r" and len: "length ?rs = 3" by simp_all
  from len have "?rs ! 0 \<in> set ?rs" "?rs ! 2 \<in> set ?rs" by simp_all
  with all have "- 1 \<le> ?rs ! 0" "- 1 \<le> ?rs ! 2" by blast+
  with val show ?thesis by blast
qed

section \<open>Overfitting analysis with too few strategies\<close>



section \<open>Formula results outside the domain of \<open>sqrt\<close> and \<open>log\<close>\<close>

text \<open>
  C2. An exception in the protected block gives the fallback (5 in the stress and
  Monte Carlo engines, 10 in the overfitting detector). A domain error does not
  raise: \<open>np.sqrt\<close> and \<open>np.log\<close> return NaN, \<open>float\<close> keeps it, and the clamp
  \<^verbatim>\<open>max(0, min(100, nan))\<close> is 100 because \<^verbatim>\<open>min(100, nan)\<close> keeps its first
  argument. So the formula \<open>sqrt(sharpe)\<close> under the scenario ``Black Monday
  1987'' (stressed Sharpe \<open>max(-3, 0.4 - 2.5) = -2.1\<close>) is allocated 100 percent,
  not the fallback; in the overfitting detector \<^verbatim>\<open>min(50, max(0, nan))\<close> is 0, not
  the fallback 10.
\<close>

theorem domain_error_is_not_the_fallback:
  "calculate_allocation (Returned (np_sqrt (Fin (- 21/10)))) = 100
   \<and> trial_allocation (Returned (np_log (Fin (- 1)))) = 100
   \<and> evaluate_formula (Returned (np_sqrt (Fin (- 1)))) = 0
   \<and> calculate_allocation Raised = 5
   \<and> trial_allocation Raised = 5
   \<and> evaluate_formula Raised = 10"
  by (simp add: calculate_allocation_def trial_allocation_def evaluate_formula_def
        py_min_def py_max_def)

end
